theory Spec2Isabelle
  imports Main
begin

section \<open>Documents, exceptions and store actions\<close>

text \<open>
  A document is a Python dict as the driver encodes it: field names with values, kept in
  insertion order. \<open>VOid\<close> stands for the ObjectId that the store assigns to \<open>_id\<close>.
  Floating point values are left out.
\<close>

datatype val = VNull | VBool bool | VInt int | VStr string | VOid nat
  | VDoc "(string \<times> val) list"

type_synonym doc = "(string \<times> val) list"

text \<open>
  The exceptions of the module. \<open>Exception\<close> is the plain exception that the facade raises
  itself for a missing argument; \<open>PyMongoError\<close> is the base class of every exception of
  the driver, the only class the \<open>except\<close> clauses catch; \<open>KeyError\<close> and \<open>TypeError\<close> are
  the built-in ones that subscripting and \<open>+\<close> can raise.
\<close>

datatype exn = Exception string | PyMongoError string | KeyError string | TypeError string

text \<open>
  A call on the database either raises or returns, and leaves the database in some state:
  an action on the state \<open>'s\<close> of the server.
\<close>

type_synonym ('a, 's) act = "'s \<Rightarrow> (exn + 'a) \<times> 's"

definition ASCENDING :: int where
  "ASCENDING = 1"

definition DESCENDING :: int where
  "DESCENDING = - 1"

subsection \<open>Cursors\<close>

text \<open>
  \<open>collection.find(query, projection)\<close> builds a cursor and sends nothing;
  \<open>sort\<close>, \<open>skip\<close> and \<open>limit\<close> set options on it and return it. The query runs when
  the cursor is iterated. A limit of 0 is the driver's "no limit".
\<close>

record cursor =
  c_coll :: string
  c_filter :: doc
  c_projection :: "doc option"
  c_sort :: "(string \<times> int) list"
  c_skip :: int
  c_limit :: int

definition find_cursor :: "string \<Rightarrow> doc option \<Rightarrow> doc option \<Rightarrow> cursor" where
  "find_cursor col query projection =
     \<lparr>c_coll = col, c_filter = (case query of None \<Rightarrow> [] | Some q \<Rightarrow> q),
      c_projection = projection, c_sort = [], c_skip = 0, c_limit = 0\<rparr>"

definition sort_cursor :: "cursor \<Rightarrow> (string \<times> int) list \<Rightarrow> cursor" where
  "sort_cursor c keys = c\<lparr>c_sort := keys\<rparr>"

definition skip_cursor :: "cursor \<Rightarrow> int \<Rightarrow> cursor" where
  "skip_cursor c n = c\<lparr>c_skip := n\<rparr>"

definition limit_cursor :: "cursor \<Rightarrow> int \<Rightarrow> cursor" where
  "limit_cursor c n = c\<lparr>c_limit := n\<rparr>"

subsection \<open>The driver\<close>

text \<open>
  The driver is not part of the repository: the facade is written against its interface,
  which is a parameter here. Each operation names the collection it works on.
  \<open>update_many\<close> answers with \<open>modified_count\<close>, \<open>delete_many\<close> with \<open>deleted_count\<close>.
\<close>

record 's driver =
  create_index :: "string \<Rightarrow> (string \<times> int) list \<Rightarrow> string \<Rightarrow> (unit, 's) act"
  insert_one :: "string \<Rightarrow> doc \<Rightarrow> (unit, 's) act"
  cursor_list :: "cursor \<Rightarrow> (doc list, 's) act"
  update_many :: "string \<Rightarrow> doc \<Rightarrow> doc \<Rightarrow> (nat, 's) act"
  delete_many :: "string \<Rightarrow> doc \<Rightarrow> (nat, 's) act"
  aggregate :: "string \<Rightarrow> doc list \<Rightarrow> (doc list, 's) act"
  count_documents :: "string \<Rightarrow> doc \<Rightarrow> (nat, 's) act"

section \<open>The facade: class Animal_Shelter\<close>

text \<open>
  \<open>self.collection\<close> is the collection named at construction; \<open>self.database.animals\<close> is
  the collection named \<open>animals\<close> of the same database. What the module prints is not
  modelled.
\<close>

record 's Animal_Shelter =
  client :: "'s driver"
  collection :: string

text \<open>The handler \<open>except errors.PyMongoError\<close>: the default instead of the exception.\<close>

definition except_PyMongoError :: "(exn + 'a) \<times> 's \<Rightarrow> 'a \<Rightarrow> (exn + 'a) \<times> 's" where
  "except_PyMongoError r dflt =
     (case r of
        (Inl (PyMongoError e), s') \<Rightarrow> (Inr dflt, s')
      | (Inl e, s') \<Rightarrow> (Inl e, s')
      | (Inr v, s') \<Rightarrow> (Inr v, s'))"

definition ensure_indexes :: "'s Animal_Shelter \<Rightarrow> (unit, 's) act" where
  "ensure_indexes self s =
     (case create_index (client self) (collection self)
             [(''animal_type'', ASCENDING), (''sex_upon_outcome'', ASCENDING),
              (''age_upon_outcome_in_weeks'', ASCENDING), (''breed'', ASCENDING)]
             ''idx_rescue_filters'' s of
        (Inr u, s1) \<Rightarrow>
          except_PyMongoError
            (create_index (client self) (collection self)
               [(''location_lat'', ASCENDING), (''location_long'', ASCENDING)]
               ''idx_location'' s1) ()
      | r \<Rightarrow> except_PyMongoError r ())"

definition init :: "'s driver \<Rightarrow> string \<Rightarrow> 's \<Rightarrow> (exn + 's Animal_Shelter) \<times> 's" where
  "init drv COL s =
     (let self = \<lparr>client = drv, collection = COL\<rparr> in
      case ensure_indexes self s of
        (Inl e, s') \<Rightarrow> (Inl e, s')
      | (Inr u, s') \<Rightarrow> (Inr self, s'))"

text \<open>\<open>dict['rec_num'] + 1\<close>: defined on numbers, and on booleans, which Python counts as 0 and 1.\<close>

definition plus_one :: "val \<Rightarrow> exn + int" where
  "plus_one v =
     (case v of
        VInt i \<Rightarrow> Inr (i + 1)
      | VBool b \<Rightarrow> Inr (if b then 2 else 1)
      | _ \<Rightarrow> Inl (TypeError ''unsupported operand type(s) for +''))"

definition getNextRecordNum :: "'s Animal_Shelter \<Rightarrow> (int option, 's) act" where
  "getNextRecordNum self s =
     (let out = limit_cursor (sort_cursor (find_cursor ''animals'' None None)
                  [(''rec_num'', - 1)]) 1 in
      case cursor_list (client self) out s of
        (Inl e, s') \<Rightarrow> (Inl e, s')
      | (Inr [], s') \<Rightarrow> (Inr None, s')
      | (Inr (dict # rest), s') \<Rightarrow>
          (case map_of dict ''rec_num'' of
             None \<Rightarrow> (Inl (KeyError ''rec_num''), s')
           | Some v \<Rightarrow>
               (case plus_one v of
                  Inl e \<Rightarrow> (Inl e, s')
                | Inr n \<Rightarrow> (Inr (Some n), s'))))"

definition create :: "'s Animal_Shelter \<Rightarrow> doc option \<Rightarrow> (bool, 's) act" where
  "create self data s =
     (case data of
        Some d \<Rightarrow>
          (case insert_one (client self) ''animals'' d s of
             (Inr u, s') \<Rightarrow> (Inr True, s')
           | (Inl (PyMongoError e), s') \<Rightarrow> (Inr False, s')
           | (Inl e, s') \<Rightarrow> (Inl e, s'))
      | None \<Rightarrow> (Inl (Exception ''Nothing to save, because data parameter is empty''), s))"

text \<open>The cursor that \<open>read\<close> builds inside its \<open>try\<close>, before it drains it with \<open>list\<close>.\<close>

definition read_cursor ::
  "'s Animal_Shelter \<Rightarrow> doc \<Rightarrow> doc option \<Rightarrow> int \<Rightarrow> int \<Rightarrow> (string \<times> int) list option \<Rightarrow> cursor"
where
  "read_cursor self query projection limit skip sorting =
     (let cursor = find_cursor (collection self) (Some query) projection;
          cursor = (case sorting of
                      None \<Rightarrow> cursor
                    | Some srt \<Rightarrow>
                        if srt \<noteq> [] then
                          sort_cursor cursor
                            (map (\<lambda>(field, direction).
                                    (field, if direction \<ge> 0 then ASCENDING else DESCENDING)) srt)
                        else cursor);
          cursor = (if skip \<noteq> 0 \<and> skip > 0 then skip_cursor cursor skip else cursor);
          cursor = (if limit \<noteq> 0 \<and> limit > 0 then limit_cursor cursor limit else cursor)
      in cursor)"

definition read ::
  "'s Animal_Shelter \<Rightarrow> doc option \<Rightarrow> doc option \<Rightarrow> int \<Rightarrow> int \<Rightarrow> (string \<times> int) list option
     \<Rightarrow> (doc list, 's) act"
where
  "read self query projection limit skip sorting s =
     (case query of
        None \<Rightarrow> (Inl (Exception ''Query parameter is empty''), s)
      | Some q \<Rightarrow>
          except_PyMongoError
            (cursor_list (client self) (read_cursor self q projection limit skip sorting) s) [])"

text \<open>\<open>key.startswith('$')\<close>\<close>

definition startswith_dollar :: "string \<Rightarrow> bool" where
  "startswith_dollar key = (case key of [] \<Rightarrow> False | c # cs \<Rightarrow> c = CHR ''$'')"

definition update_operation :: "doc \<Rightarrow> doc" where
  "update_operation update_data =
     (if \<not> list_ex startswith_dollar (map fst update_data)
      then [(''$set'', VDoc update_data)]
      else update_data)"

definition update :: "'s Animal_Shelter \<Rightarrow> doc option \<Rightarrow> doc option \<Rightarrow> (nat, 's) act" where
  "update self lookup_pair update_data s =
     (case (lookup_pair, update_data) of
        (Some lp, Some ud) \<Rightarrow>
          except_PyMongoError
            (update_many (client self) (collection self) lp (update_operation ud) s) 0
      | _ \<Rightarrow>
          (Inl (Exception
             ''Required parameters for update are missing: lookup_pair and/or update_data''), s))"

definition delete :: "'s Animal_Shelter \<Rightarrow> doc option \<Rightarrow> (nat, 's) act" where
  "delete self lookup_pair s =
     (case lookup_pair of
        Some lp \<Rightarrow>
          except_PyMongoError (delete_many (client self) (collection self) lp s) 0
      | None \<Rightarrow>
          (Inl (Exception ''Required parameter for delete is missing: lookup_pair''), s))"

text \<open>Python's truth value of a document field, as \<open>if r["_id"]\<close> tests it.\<close>

definition truthy :: "val \<Rightarrow> bool" where
  "truthy v =
     (case v of
        VNull \<Rightarrow> False
      | VBool b \<Rightarrow> b
      | VInt i \<Rightarrow> i \<noteq> 0
      | VStr s \<Rightarrow> s \<noteq> []
      | VOid n \<Rightarrow> True
      | VDoc d \<Rightarrow> d \<noteq> [])"

definition pipeline :: "doc \<Rightarrow> int \<Rightarrow> doc list" where
  "pipeline query limit =
     [[(''$match'', VDoc query)],
      [(''$group'', VDoc [(''_id'', VStr ''$breed''), (''count'', VDoc [(''$sum'', VInt 1)])])],
      [(''$sort'', VDoc [(''count'', VInt (- 1))])],
      [(''$limit'', VInt limit)]]"

text \<open>
  The comprehension \<open>[{"breed": r["_id"], "count": r["count"]} for r in results if r["_id"]]\<close>:
  a missing key raises at the first result that lacks it.
\<close>

fun friendly_keys :: "doc list \<Rightarrow> exn + doc list" where
  "friendly_keys [] = Inr []"
| "friendly_keys (r # results) =
     (case map_of r ''_id'' of
        None \<Rightarrow> Inl (KeyError ''_id'')
      | Some i \<Rightarrow>
          if truthy i then
            (case map_of r ''count'' of
               None \<Rightarrow> Inl (KeyError ''count'')
             | Some c \<Rightarrow>
                 (case friendly_keys results of
                    Inl e \<Rightarrow> Inl e
                  | Inr out \<Rightarrow> Inr ([(''breed'', i), (''count'', c)] # out)))
          else friendly_keys results)"

definition breed_counts :: "'s Animal_Shelter \<Rightarrow> doc option \<Rightarrow> int \<Rightarrow> (doc list, 's) act" where
  "breed_counts self query limit s =
     (let query = (case query of None \<Rightarrow> [] | Some q \<Rightarrow> q) in
      case aggregate (client self) (collection self) (pipeline query limit) s of
        (Inr results, s') \<Rightarrow> (friendly_keys results, s')
      | (Inl (PyMongoError e), s') \<Rightarrow> (Inr [], s')
      | (Inl e, s') \<Rightarrow> (Inl e, s'))"

definition count :: "'s Animal_Shelter \<Rightarrow> doc option \<Rightarrow> (nat, 's) act" where
  "count self query s =
     (let query = (case query of None \<Rightarrow> [] | Some q \<Rightarrow> if q \<noteq> [] then q else []) in
      except_PyMongoError (count_documents (client self) (collection self) query s) 0)"

section \<open>A reference model of the store\<close>

text \<open>
  The driver and the server are outside the repository. To say what an operation of the
  facade returns, this section models a server that works as the database's manual says,
  in memory: a collection is the list of its documents. Three things stay parameters,
  because the facade hands them over unread: when a non-empty filter selects a document,
  what an update document does to a document, and what a projection keeps. The empty
  filter selects every document.
\<close>

record engine =
  matches :: "doc \<Rightarrow> doc \<Rightarrow> bool"
  modify :: "doc \<Rightarrow> doc \<Rightarrow> doc"
  project :: "doc \<Rightarrow> doc \<Rightarrow> doc"

record store =
  colls :: "string \<Rightarrow> doc list"
  next_oid :: nat
  index_names :: "(string \<times> string) list"

definition selected :: "engine \<Rightarrow> doc \<Rightarrow> doc \<Rightarrow> bool" where
  "selected E q d = (q = [] \<or> matches E q d)"

text \<open>A missing field reads as null, in sorting and in grouping.\<close>

definition field_val :: "string \<Rightarrow> doc \<Rightarrow> val" where
  "field_val f d = (case map_of d f of None \<Rightarrow> VNull | Some v \<Rightarrow> v)"

subsection \<open>The order of values\<close>

text \<open>
  Values of different types compare by type: null, numbers, strings, embedded documents,
  object ids, booleans. Strings compare byte by byte. Embedded documents are not compared
  with each other here: they all count as equal.
\<close>

definition bson_rank :: "val \<Rightarrow> nat" where
  "bson_rank v =
     (case v of VNull \<Rightarrow> 0 | VInt i \<Rightarrow> 1 | VStr s \<Rightarrow> 2 | VDoc d \<Rightarrow> 3 | VOid n \<Rightarrow> 4
      | VBool b \<Rightarrow> 5)"

fun str_le :: "string \<Rightarrow> string \<Rightarrow> bool" where
  "str_le [] ys = True"
| "str_le (x # xs) [] = False"
| "str_le (x # xs) (y # ys) =
     (if x = y then str_le xs ys else (of_char x :: nat) < of_char y)"

fun same_rank_le :: "val \<Rightarrow> val \<Rightarrow> bool" where
  "same_rank_le (VInt a) (VInt b) = (a \<le> b)"
| "same_rank_le (VStr a) (VStr b) = str_le a b"
| "same_rank_le (VOid a) (VOid b) = (a \<le> b)"
| "same_rank_le (VBool a) (VBool b) = (b \<or> a = b)"
| "same_rank_le a b = True"

definition val_le :: "val \<Rightarrow> val \<Rightarrow> bool" where
  "val_le a b =
     (bson_rank a < bson_rank b \<or> (bson_rank a = bson_rank b \<and> same_rank_le a b))"

text \<open>A sort key is a field with a direction: negative for descending.\<close>

definition doc_le :: "string \<times> int \<Rightarrow> doc \<Rightarrow> doc \<Rightarrow> bool" where
  "doc_le k a b =
     (if snd k < 0 then val_le (field_val (fst k) b) (field_val (fst k) a)
      else val_le (field_val (fst k) a) (field_val (fst k) b))"

fun insert_by :: "('a \<Rightarrow> 'a \<Rightarrow> bool) \<Rightarrow> 'a \<Rightarrow> 'a list \<Rightarrow> 'a list" where
  "insert_by le x [] = [x]"
| "insert_by le x (y # ys) = (if le x y then x # y # ys else y # insert_by le x ys)"

definition sort_by :: "('a \<Rightarrow> 'a \<Rightarrow> bool) \<Rightarrow> 'a list \<Rightarrow> 'a list" where
  "sort_by le xs = foldr (insert_by le) xs []"

text \<open>Several keys: the first is the major one, so the list is sorted by the last first.\<close>

definition sort_docs :: "(string \<times> int) list \<Rightarrow> doc list \<Rightarrow> doc list" where
  "sort_docs keys ds = foldr (\<lambda>k acc. sort_by (doc_le k) acc) keys ds"

subsection \<open>The operations\<close>

definition mem_create_index :: "string \<Rightarrow> (string \<times> int) list \<Rightarrow> string \<Rightarrow> (unit, store) act" where
  "mem_create_index col keys name s =
     (Inr (), s\<lparr>index_names := List.insert (col, name) (index_names s)\<rparr>)"

text \<open>
  A document without \<open>_id\<close> gets a fresh one; a second document with an \<open>_id\<close> of the
  collection is refused with the driver's DuplicateKeyError.
\<close>

definition mem_insert_one :: "string \<Rightarrow> doc \<Rightarrow> (unit, store) act" where
  "mem_insert_one col d s =
     (case map_of d ''_id'' of
        None \<Rightarrow>
          (Inr (), s\<lparr>colls := (colls s)(col := colls s col @ [(''_id'', VOid (next_oid s)) # d]),
                     next_oid := Suc (next_oid s)\<rparr>)
      | Some i \<Rightarrow>
          if list_ex (\<lambda>d'. map_of d' ''_id'' = Some i) (colls s col)
          then (Inl (PyMongoError ''E11000 duplicate key error''), s)
          else (Inr (), s\<lparr>colls := (colls s)(col := colls s col @ [d])\<rparr>))"

text \<open>
  Running a cursor: select, sort, skip, limit, project, whatever the order in which the
  options were set. A negative limit asks for that many documents in one batch.
\<close>

definition run_cursor :: "engine \<Rightarrow> cursor \<Rightarrow> doc list \<Rightarrow> doc list" where
  "run_cursor E c ds =
     (let found = filter (selected E (c_filter c)) ds;
          sorted = sort_docs (c_sort c) found;
          skipped = drop (nat (c_skip c)) sorted;
          limited = (if c_limit c = 0 then skipped else take (nat \<bar>c_limit c\<bar>) skipped)
      in case c_projection c of
           None \<Rightarrow> limited
         | Some p \<Rightarrow> map (project E p) limited)"

definition mem_cursor_list :: "engine \<Rightarrow> cursor \<Rightarrow> (doc list, store) act" where
  "mem_cursor_list E c s = (Inr (run_cursor E c (colls s (c_coll c))), s)"

definition mem_update_many :: "engine \<Rightarrow> string \<Rightarrow> doc \<Rightarrow> doc \<Rightarrow> (nat, store) act" where
  "mem_update_many E col q u s =
     (let ds = colls s col in
      (Inr (length (filter (\<lambda>d. selected E q d \<and> modify E u d \<noteq> d) ds)),
       s\<lparr>colls := (colls s)(col := map (\<lambda>d. if selected E q d then modify E u d else d) ds)\<rparr>))"

definition mem_delete_many :: "engine \<Rightarrow> string \<Rightarrow> doc \<Rightarrow> (nat, store) act" where
  "mem_delete_many E col q s =
     (let ds = colls s col in
      (Inr (length (filter (selected E q) ds)),
       s\<lparr>colls := (colls s)(col := filter (\<lambda>d. \<not> selected E q d) ds)\<rparr>))"

definition mem_count_documents :: "engine \<Rightarrow> string \<Rightarrow> doc \<Rightarrow> (nat, store) act" where
  "mem_count_documents E col q s = (Inr (length (filter (selected E q) (colls s col))), s)"

subsection \<open>Aggregation\<close>

text \<open>
  The stages that the facade sends. \<open>$group\<close> by a field with one \<open>$sum\<close> of a constant
  gives one document for each value of the field, null for the documents that lack it.
  The server promises no order of the groups; here they come in the order of \<open>remdups\<close>.
  \<open>$limit\<close> must be positive.
\<close>

definition group_sum :: "string \<Rightarrow> string \<Rightarrow> int \<Rightarrow> doc list \<Rightarrow> doc list" where
  "group_sum f out k ds =
     map (\<lambda>v. [(''_id'', v),
               (out, VInt (k * int (length (filter (\<lambda>d. field_val f d = v) ds))))])
       (remdups (map (field_val f) ds))"

fun sort_keys :: "doc \<Rightarrow> (string \<times> int) list option" where
  "sort_keys [] = Some []"
| "sort_keys ((f, VInt d) # ks) = map_option ((#) (f, d)) (sort_keys ks)"
| "sort_keys (k # ks) = None"

fun group_spec :: "doc \<Rightarrow> (string \<times> string \<times> int) option" where
  "group_spec [(i, VStr (c # f)), (out, VDoc [(acc, VInt k)])] =
     (if i = ''_id'' \<and> c = CHR ''$'' \<and> acc = ''$sum'' then Some (f, out, k) else None)"
| "group_spec g = None"

definition run_stage :: "engine \<Rightarrow> doc \<Rightarrow> doc list \<Rightarrow> exn + doc list" where
  "run_stage E stage ds =
     (case stage of
        [(name, VDoc arg)] \<Rightarrow>
          if name = ''$match'' then Inr (filter (selected E arg) ds)
          else if name = ''$group'' then
            (case group_spec arg of
               Some (f, out, k) \<Rightarrow> Inr (group_sum f out k ds)
             | None \<Rightarrow> Inl (PyMongoError ''unsupported $group''))
          else if name = ''$sort'' then
            (case sort_keys arg of
               Some keys \<Rightarrow> Inr (sort_docs keys ds)
             | None \<Rightarrow> Inl (PyMongoError ''$sort key ordering must be a number''))
          else Inl (PyMongoError ''Unrecognized pipeline stage name'')
      | [(name, VInt n)] \<Rightarrow>
          if name = ''$limit'' then
            (if n > 0 then Inr (take (nat n) ds)
             else Inl (PyMongoError ''the limit must be positive''))
          else Inl (PyMongoError ''Unrecognized pipeline stage name'')
      | _ \<Rightarrow> Inl (PyMongoError ''Unrecognized pipeline stage''))"

fun run_pipeline :: "engine \<Rightarrow> doc list \<Rightarrow> doc list \<Rightarrow> exn + doc list" where
  "run_pipeline E [] ds = Inr ds"
| "run_pipeline E (stage # stages) ds =
     (case run_stage E stage ds of
        Inl e \<Rightarrow> Inl e
      | Inr ds' \<Rightarrow> run_pipeline E stages ds')"

definition mem_aggregate :: "engine \<Rightarrow> string \<Rightarrow> doc list \<Rightarrow> (doc list, store) act" where
  "mem_aggregate E col pl s = (run_pipeline E pl (colls s col), s)"

definition mongo :: "engine \<Rightarrow> store driver" where
  "mongo E =
     \<lparr>create_index = mem_create_index,
      insert_one = mem_insert_one,
      cursor_list = mem_cursor_list E,
      update_many = mem_update_many E,
      delete_many = mem_delete_many E,
      aggregate = mem_aggregate E,
      count_documents = mem_count_documents E\<rparr>"

subsection \<open>Instances for the examples\<close>

text \<open>
  An engine for filters that list required field values, updates with \<open>$set\<close> of top-level
  fields, and projections that list the fields to keep.
\<close>

fun set_field :: "doc \<Rightarrow> string \<times> val \<Rightarrow> doc" where
  "set_field [] kv = [kv]"
| "set_field (fv # d) kv = (if fst fv = fst kv then kv # d else fv # set_field d kv)"

definition plain :: engine where
  "plain =
     \<lparr>matches = (\<lambda>q d. list_all (\<lambda>(k, v). map_of d k = Some v) q),
      modify = (\<lambda>u d. case map_of u ''$set'' of Some (VDoc fs) \<Rightarrow> foldl set_field d fs | _ \<Rightarrow> d),
      project = (\<lambda>p d. filter (\<lambda>(k, v). k \<in> set (map fst p)) d)\<rparr>"


text \<open>
  A driver that answers every query with no documents and keeps, as its state, the
  cursors it was asked to run.
\<close>

definition spy :: "cursor list driver" where
  "spy =
     \<lparr>create_index = (\<lambda>col keys name s. (Inr (), s)),
      insert_one = (\<lambda>col d s. (Inr (), s)),
      cursor_list = (\<lambda>c s. (Inr [], s @ [c])),
      update_many = (\<lambda>col q u s. (Inr 0, s)),
      delete_many = (\<lambda>col q s. (Inr 0, s)),
      aggregate = (\<lambda>col pl s. (Inr [], s)),
      count_documents = (\<lambda>col q s. (Inr 0, s))\<rparr>"

definition empty_store :: store where
  "empty_store = \<lparr>colls = (\<lambda>col. []), next_oid = 0, index_names = []\<rparr>"

subsection \<open>Notions for the statements\<close>

text \<open>The integer record numbers of a collection, in the order of its documents.\<close>

definition rec_nums :: "doc list \<Rightarrow> int list" where
  "rec_nums ds =
     concat (map (\<lambda>d. case map_of d ''rec_num'' of Some (VInt i) \<Rightarrow> [i] | _ \<Rightarrow> []) ds)"

text \<open>A document whose \<open>rec_num\<close> is an integer, or null, or missing.\<close>

definition numbered :: "doc \<Rightarrow> bool" where
  "numbered d = (case field_val ''rec_num'' d of VInt i \<Rightarrow> True | VNull \<Rightarrow> True | _ \<Rightarrow> False)"

definition shelter_example :: store where
  "shelter_example =
     \<lparr>colls = (\<lambda>col. [])
        (''animals'' :=
           [[(''_id'', VOid 0), (''rec_num'', VInt 3), (''breed'', VStr ''Labrador'')],
            [(''_id'', VOid 1), (''rec_num'', VInt 7), (''breed'', VStr ''Poodle'')],
            [(''_id'', VOid 2), (''breed'', VStr ''Labrador'')]]),
      next_oid = 3, index_names = []\<rparr>"

text \<open>
  The sort that \<open>read\<close> hands to the cursor: every direction replaced by 1 or -1, and no
  sort at all when the argument is absent.
\<close>

definition normalized :: "(string \<times> int) list option \<Rightarrow> (string \<times> int) list" where
  "normalized sorting =
     (case sorting of
        None \<Rightarrow> []
      | Some srt \<Rightarrow> map (\<lambda>(field, direction). (field, if direction \<ge> 0 then 1 else - 1)) srt)"

definition kennel_example :: store where
  "kennel_example =
     \<lparr>colls = (\<lambda>col. [])
        (''dogs'' :=
           [[(''name'', VStr ''Ace''), (''age_upon_outcome_in_weeks'', VInt 30)],
            [(''name'', VStr ''Bo''), (''age_upon_outcome_in_weeks'', VInt 52)],
            [(''name'', VStr ''Cy''), (''age_upon_outcome_in_weeks'', VInt 8)],
            [(''name'', VStr ''Di''), (''age_upon_outcome_in_weeks'', VInt 104)],
            [(''name'', VStr ''Ed''), (''age_upon_outcome_in_weeks'', VInt 26)]]),
      next_oid = 0, index_names = []\<rparr>"

text \<open>
  The aggregation of \<open>breed_counts\<close> in the words of its description: the values of
  \<open>breed\<close> with the number of their occurrences, in descending order of that number,
  capped at the limit.
\<close>

definition tally :: "'a list \<Rightarrow> ('a \<times> int) list" where
  "tally vs = map (\<lambda>v. (v, int (count_list vs v))) (remdups vs)"

definition count_ge :: "'a \<times> int \<Rightarrow> 'a \<times> int \<Rightarrow> bool" where
  "count_ge a b = (snd b \<le> snd a)"

definition top_breeds :: "doc list \<Rightarrow> int \<Rightarrow> (val \<times> int) list" where
  "top_breeds ds limit =
     take (nat limit) (sort_by count_ge (tally (map (field_val ''breed'') ds)))"

text \<open>The friendly keys of a result, and the keys of a group as the server names them.\<close>

definition entry :: "val \<times> int \<Rightarrow> doc" where
  "entry p = [(''breed'', fst p), (''count'', VInt (snd p))]"

definition group_doc :: "val \<times> int \<Rightarrow> doc" where
  "group_doc p = [(''_id'', fst p), (''count'', VInt (snd p))]"

definition breeds_example :: store where
  "breeds_example =
     \<lparr>colls = (\<lambda>col. [])
        (''dogs'' :=
           [[(''_id'', VOid 0), (''breed'', VStr ''Labrador'')],
            [(''_id'', VOid 1), (''breed'', VStr ''Labrador'')],
            [(''_id'', VOid 2), (''breed'', VStr ''Poodle'')]]),
      next_oid = 3, index_names = []\<rparr>"

definition unnamed_example :: store where
  "unnamed_example =
     \<lparr>colls = (\<lambda>col. [])
        (''dogs'' :=
           [[(''_id'', VOid 0), (''breed'', VStr [])],
            [(''_id'', VOid 1), (''breed'', VStr [])],
            [(''_id'', VOid 2), (''breed'', VStr ''Labrador'')]]),
      next_oid = 3, index_names = []\<rparr>"

section \<open>The two tiers of errors\<close>

lemma except_PyMongoError_simps:
  "except_PyMongoError (Inl (PyMongoError e), s') dflt = (Inr dflt, s')"
  "except_PyMongoError (Inr v, s') dflt = (Inr v, s')"
  "except_PyMongoError (Inl (Exception m), s') dflt = (Inl (Exception m), s')"
  "except_PyMongoError (Inl (KeyError m), s') dflt = (Inl (KeyError m), s')"
  "except_PyMongoError (Inl (TypeError m), s') dflt = (Inl (TypeError m), s')"
  by (simp_all add: except_PyMongoError_def)

text \<open>
  Claim C4. A call without a required argument, \<open>read(None)\<close>, \<open>update(None, x)\<close>,
  \<open>update(x, None)\<close> or \<open>delete(None)\<close>, raises the contract error. It does so with any
  driver and from any state of the database, which it returns as it was: no operation of
  the store has run.
\<close>

theorem absent_argument_raises:
  "read self None projection limit skip sorting s
     = (Inl (Exception ''Query parameter is empty''), s)
   \<and> update self None update_data s
     = (Inl (Exception
          ''Required parameters for update are missing: lookup_pair and/or update_data''), s)
   \<and> update self lookup_pair None s
     = (Inl (Exception
          ''Required parameters for update are missing: lookup_pair and/or update_data''), s)
   \<and> delete self None s
     = (Inl (Exception ''Required parameter for delete is missing: lookup_pair''), s)"
  by (simp add: read_def update_def delete_def split: option.split)



section \<open>Sorting in the store\<close>

lemma str_le_total: "str_le a b \<or> str_le b a"
  by (induction a b rule: str_le.induct) (auto simp: not_less order_le_less)

lemma str_le_trans: "str_le a b \<Longrightarrow> str_le b c \<Longrightarrow> str_le a c"
proof (induction a b arbitrary: c rule: str_le.induct)
  case (1 ys)
  then show ?case by simp
next
  case (2 x xs)
  then show ?case by simp
next
  case (3 x xs y ys)
  then show ?case by (cases c) (auto split: if_splits simp: not_less order_le_less)
qed

lemma same_rank_le_total:
  "bson_rank a = bson_rank b \<Longrightarrow> same_rank_le a b \<or> same_rank_le b a"
  using str_le_total by (cases a; cases b) (auto simp: bson_rank_def)

lemma same_rank_le_trans:
  "bson_rank a = bson_rank b \<Longrightarrow> bson_rank b = bson_rank c \<Longrightarrow>
   same_rank_le a b \<Longrightarrow> same_rank_le b c \<Longrightarrow> same_rank_le a c"
  by (cases a; cases b; cases c) (auto simp: bson_rank_def intro: str_le_trans)

lemma val_le_total: "val_le a b \<or> val_le b a"
  using same_rank_le_total[of a b] same_rank_le_total[of b a]
  by (auto simp: val_le_def)

lemma val_le_trans: "val_le a b \<Longrightarrow> val_le b c \<Longrightarrow> val_le a c"
  using same_rank_le_trans[of a b c] by (auto simp: val_le_def)

lemma doc_le_total: "doc_le k a b \<or> doc_le k b a"
  using val_le_total by (auto simp: doc_le_def)

lemma doc_le_trans: "doc_le k a b \<Longrightarrow> doc_le k b c \<Longrightarrow> doc_le k a c"
  by (auto simp: doc_le_def intro: val_le_trans split: if_splits)

lemma set_insert_by: "set (insert_by le x xs) = insert x (set xs)"
  by (induction xs) auto

lemma length_insert_by: "length (insert_by le x xs) = Suc (length xs)"
  by (induction xs) auto

lemma set_sort_by: "set (sort_by le xs) = set xs"
  by (induction xs) (auto simp: sort_by_def set_insert_by)

lemma length_sort_by: "length (sort_by le xs) = length xs"
  by (induction xs) (auto simp: sort_by_def length_insert_by)

lemma sort_by_Nil: "sort_by le [] = []"
  by (simp add: sort_by_def)

lemma sort_by_Cons: "sort_by le (x # xs) = insert_by le x (sort_by le xs)"
  by (simp add: sort_by_def)

lemma sorted_insert_by:
  assumes tot: "\<And>a b. le a b \<or> le b a" and tr: "\<And>a b c. le a b \<Longrightarrow> le b c \<Longrightarrow> le a c"
  shows "sorted_wrt le xs \<Longrightarrow> sorted_wrt le (insert_by le x xs)"
proof (induction xs)
  case Nil
  then show ?case by simp
next
  case (Cons y ys)
  show ?case
  proof (cases "le x y")
    case True
    with Cons.prems tr show ?thesis by auto
  next
    case False
    with tot have "le y x" by blast
    with Cons False show ?thesis by (auto simp: set_insert_by)
  qed
qed

lemma sorted_sort_by:
  assumes tot: "\<And>a b. le a b \<or> le b a" and tr: "\<And>a b c. le a b \<Longrightarrow> le b c \<Longrightarrow> le a c"
  shows "sorted_wrt le (sort_by le xs)"
  by (induction xs) (auto simp: sort_by_Nil sort_by_Cons intro: sorted_insert_by[OF tot tr])

lemma sorted_sort_docs: "sorted_wrt (doc_le k) (sort_docs (k # ks) ds)"
  unfolding sort_docs_def foldr_Cons o_apply
  using doc_le_total[of k] doc_le_trans[of k] by (intro sorted_sort_by) blast+

section \<open>The next record number\<close>

lemma sort_by_first:
  assumes "ds \<noteq> []"
  shows "\<exists>d0 rest. sort_by (doc_le k) ds = d0 # rest \<and> d0 \<in> set ds
           \<and> (\<forall>d \<in> set ds. doc_le k d0 d)"
proof -
  from assms have "sort_by (doc_le k) ds \<noteq> []"
    using length_sort_by[of "doc_le k" ds] by auto
  then obtain d0 rest where eq: "sort_by (doc_le k) ds = d0 # rest"
    by (cases "sort_by (doc_le k) ds") auto
  have srt: "sorted_wrt (doc_le k) (d0 # rest)"
    using sorted_sort_docs[of k "[]" ds] eq by (simp add: sort_docs_def)
  have mem: "set ds = insert d0 (set rest)"
    using set_sort_by[of "doc_le k" ds] eq by simp
  have "doc_le k d0 d0" using doc_le_total[of k d0 d0] by simp
  with srt mem have "\<forall>d \<in> set ds. doc_le k d0 d" by auto
  with eq mem show ?thesis by auto
qed

lemma set_rec_nums:
  "i \<in> set (rec_nums ds) \<longleftrightarrow> (\<exists>d \<in> set ds. map_of d ''rec_num'' = Some (VInt i))"
  by (induction ds) (auto simp: rec_nums_def split: option.splits val.splits)

lemma run_cursor_next:
  "cursor_list (mongo E) (limit_cursor (sort_cursor (find_cursor col None None) [k]) 1) s
     = (Inr (take 1 (sort_by (doc_le k) (colls s col))), s)"
  by (simp add: mongo_def mem_cursor_list_def run_cursor_def limit_cursor_def sort_cursor_def
      find_cursor_def selected_def sort_docs_def)

lemma highest_rec_num:
  assumes ok: "list_all numbered ds" and ne: "rec_nums ds \<noteq> []"
  shows "\<exists>d0 rest. sort_by (doc_le (''rec_num'', - 1)) ds = d0 # rest
           \<and> map_of d0 ''rec_num'' = Some (VInt (Max (set (rec_nums ds))))"
proof -
  from ne obtain i1 where "i1 \<in> set (rec_nums ds)" by (cases "rec_nums ds") auto
  then obtain d1 where d1: "d1 \<in> set ds" "map_of d1 ''rec_num'' = Some (VInt i1)"
    by (auto simp: set_rec_nums)
  then have "ds \<noteq> []" by auto
  from sort_by_first[OF this, of "(''rec_num'', - 1)"]
  obtain d0 rest where eq: "sort_by (doc_le (''rec_num'', - 1)) ds = d0 # rest"
    and d0: "d0 \<in> set ds" and top: "\<forall>d \<in> set ds. doc_le (''rec_num'', - 1) d0 d"
    by blast
  have le: "val_le (field_val ''rec_num'' d) (field_val ''rec_num'' d0)" if "d \<in> set ds" for d
    using top that by (simp add: doc_le_def)
  from le[OF d1(1)] d1(2) have "1 \<le> bson_rank (field_val ''rec_num'' d0)"
    by (auto simp: val_le_def field_val_def bson_rank_def)
  moreover from ok d0 have "numbered d0" by (simp add: list_all_iff)
  ultimately obtain i0 where i0: "field_val ''rec_num'' d0 = VInt i0"
    by (auto simp: numbered_def bson_rank_def split: val.splits)
  then have m0: "map_of d0 ''rec_num'' = Some (VInt i0)"
    by (auto simp: field_val_def split: option.splits)
  have "i \<le> i0" if "i \<in> set (rec_nums ds)" for i
  proof -
    from that obtain d where "d \<in> set ds" "map_of d ''rec_num'' = Some (VInt i)"
      by (auto simp: set_rec_nums)
    with le[of d] i0 show ?thesis
      by (simp add: field_val_def val_le_def bson_rank_def)
  qed
  moreover have "i0 \<in> set (rec_nums ds)"
    using d0 m0 by (auto simp: set_rec_nums)
  ultimately have "Max (set (rec_nums ds)) = i0"
    by (intro Max_eqI) auto
  with eq m0 show ?thesis by simp
qed

lemma no_rec_num:
  assumes ne: "ds \<noteq> []" and none: "list_all (\<lambda>d. map_of d ''rec_num'' = None) ds"
  shows "\<exists>d0 rest. sort_by (doc_le (''rec_num'', - 1)) ds = d0 # rest
           \<and> map_of d0 ''rec_num'' = None"
proof -
  from sort_by_first[OF ne, of "(''rec_num'', - 1)"]
  obtain d0 rest where "sort_by (doc_le (''rec_num'', - 1)) ds = d0 # rest" "d0 \<in> set ds"
    by blast
  with none show ?thesis by (auto simp: list_all_iff)
qed

text \<open>
  Against claim C5 as stated: a non-empty collection need not hold a record number. After
  one \<open>create\<close> of a document without \<open>rec_num\<close> on the empty store, \<open>animals\<close> is not
  empty, and \<open>getNextRecordNum\<close> raises \<open>KeyError\<close> where the claim promises the maximum
  plus one.
\<close>

theorem getNextRecordNum_without_rec_num_counterexample:
  "colls (snd (create \<lparr>client = mongo plain, collection = ''animals''\<rparr>
                 (Some [(''breed'', VStr ''Poodle'')]) empty_store)) ''animals'' \<noteq> []
   \<and> getNextRecordNum \<lparr>client = mongo plain, collection = ''animals''\<rparr>
        (snd (create \<lparr>client = mongo plain, collection = ''animals''\<rparr>
                 (Some [(''breed'', VStr ''Poodle'')]) empty_store))
     = (Inl (KeyError ''rec_num''),
        snd (create \<lparr>client = mongo plain, collection = ''animals''\<rparr>
                 (Some [(''breed'', VStr ''Poodle'')]) empty_store))"
  by (simp add: create_def mongo_def mem_insert_one_def empty_store_def getNextRecordNum_def
      mem_cursor_list_def run_cursor_def find_cursor_def sort_cursor_def limit_cursor_def
      selected_def sort_docs_def sort_by_def)

text \<open>
  Claim C5, amended. On the reference store, \<open>getNextRecordNum\<close> returns nothing when the
  collection \<open>animals\<close> is empty. When every document of \<open>animals\<close> has an integer
  \<open>rec_num\<close>, or null, or none, and at least one has an integer, it returns the largest of
  them plus one. When \<open>animals\<close> is not empty and no document of it has a \<open>rec_num\<close>, it
  raises \<open>KeyError\<close>: the subscript \<open>dict['rec_num']\<close> has no guard. The collection bound
  at construction plays no part.
\<close>

theorem getNextRecordNum_max_plus_one:
  "(colls s ''animals'' = []
      \<longrightarrow> getNextRecordNum \<lparr>client = mongo E, collection = c\<rparr> s = (Inr None, s))
   \<and> (list_all numbered (colls s ''animals'') \<and> rec_nums (colls s ''animals'') \<noteq> []
      \<longrightarrow> getNextRecordNum \<lparr>client = mongo E, collection = c\<rparr> s
          = (Inr (Some (Max (set (rec_nums (colls s ''animals''))) + 1)), s))
   \<and> (colls s ''animals'' \<noteq> []
        \<and> list_all (\<lambda>d. map_of d ''rec_num'' = None) (colls s ''animals'')
      \<longrightarrow> getNextRecordNum \<lparr>client = mongo E, collection = c\<rparr> s
          = (Inl (KeyError ''rec_num''), s))"
proof (intro conjI impI)
  assume "colls s ''animals'' = []"
  then show "getNextRecordNum \<lparr>client = mongo E, collection = c\<rparr> s = (Inr None, s)"
    by (simp add: getNextRecordNum_def run_cursor_next sort_by_Nil)
next
  assume "list_all numbered (colls s ''animals'') \<and> rec_nums (colls s ''animals'') \<noteq> []"
  then obtain d0 rest where
    "sort_by (doc_le (''rec_num'', - 1)) (colls s ''animals'') = d0 # rest"
    "map_of d0 ''rec_num'' = Some (VInt (Max (set (rec_nums (colls s ''animals'')))))"
    using highest_rec_num by blast
  then show "getNextRecordNum \<lparr>client = mongo E, collection = c\<rparr> s
          = (Inr (Some (Max (set (rec_nums (colls s ''animals''))) + 1)), s)"
    by (simp add: getNextRecordNum_def run_cursor_next plus_one_def)
next
  assume "colls s ''animals'' \<noteq> []
        \<and> list_all (\<lambda>d. map_of d ''rec_num'' = None) (colls s ''animals'')"
  then obtain d0 rest where
    "sort_by (doc_le (''rec_num'', - 1)) (colls s ''animals'') = d0 # rest"
    "map_of d0 ''rec_num'' = None"
    using no_rec_num by blast
  then show "getNextRecordNum \<lparr>client = mongo E, collection = c\<rparr> s
          = (Inl (KeyError ''rec_num''), s)"
    by (simp add: getNextRecordNum_def run_cursor_next)
qed

theorem getNextRecordNum_max_plus_one_witness:
  "getNextRecordNum \<lparr>client = mongo plain, collection = ''dogs''\<rparr> empty_store
     = (Inr None, empty_store)
   \<and> getNextRecordNum \<lparr>client = mongo plain, collection = ''dogs''\<rparr> shelter_example
     = (Inr (Some 8), shelter_example)
   \<and> getNextRecordNum \<lparr>client = mongo plain, collection = ''dogs''\<rparr>
        (breeds_example\<lparr>colls := (colls breeds_example)
           (''animals'' := colls breeds_example ''dogs'')\<rparr>)
     = (Inl (KeyError ''rec_num''),
        breeds_example\<lparr>colls := (colls breeds_example)
           (''animals'' := colls breeds_example ''dogs'')\<rparr>)"
proof -
  have a: "getNextRecordNum \<lparr>client = mongo plain, collection = ''dogs''\<rparr> empty_store
     = (Inr None, empty_store)"
    using getNextRecordNum_max_plus_one[of empty_store plain "''dogs''"]
    by (simp add: empty_store_def)
  have b: "getNextRecordNum \<lparr>client = mongo plain, collection = ''dogs''\<rparr> shelter_example
     = (Inr (Some 8), shelter_example)"
    using getNextRecordNum_max_plus_one[of shelter_example plain "''dogs''"]
    by (simp add: shelter_example_def rec_nums_def numbered_def field_val_def)
  have c: "getNextRecordNum \<lparr>client = mongo plain, collection = ''dogs''\<rparr>
        (breeds_example\<lparr>colls := (colls breeds_example)
           (''animals'' := colls breeds_example ''dogs'')\<rparr>)
     = (Inl (KeyError ''rec_num''),
        breeds_example\<lparr>colls := (colls breeds_example)
           (''animals'' := colls breeds_example ''dogs'')\<rparr>)"
    using getNextRecordNum_max_plus_one
      [of "breeds_example\<lparr>colls := (colls breeds_example)
             (''animals'' := colls breeds_example ''dogs'')\<rparr>" plain "''dogs''"]
    by (simp add: breeds_example_def)
  from a b c show ?thesis by simp
qed

section \<open>Reading: sort, skip and limit\<close>

lemma read_cursor_fields:
  "c_coll (read_cursor self q projection limit skip sorting) = collection self"
  "c_filter (read_cursor self q projection limit skip sorting) = q"
  "c_projection (read_cursor self q projection limit skip sorting) = projection"
  "c_sort (read_cursor self q projection limit skip sorting) = normalized sorting"
  "c_skip (read_cursor self q projection limit skip sorting) = (if skip > 0 then skip else 0)"
  "c_limit (read_cursor self q projection limit skip sorting) = (if limit > 0 then limit else 0)"
  by (auto simp: read_cursor_def find_cursor_def sort_cursor_def skip_cursor_def
      limit_cursor_def normalized_def ASCENDING_def DESCENDING_def Let_def split: option.split)

lemma read_mongo:
  "read \<lparr>client = mongo E, collection = c\<rparr> (Some q) projection limit skip sorting s
     = (Inr (run_cursor E (read_cursor \<lparr>client = mongo E, collection = c\<rparr> q projection
               limit skip sorting) (colls s c)), s)"
  by (simp add: read_def mongo_def mem_cursor_list_def except_PyMongoError_simps
      read_cursor_fields)

lemma read_cursor_record:
  "read_cursor self q projection limit skip (Some srt)
     = \<lparr>c_coll = collection self, c_filter = q, c_projection = projection,
        c_sort = map (\<lambda>(field, direction).
                        (field, if direction \<ge> 0 then ASCENDING else DESCENDING)) srt,
        c_skip = (if 0 < skip then skip else 0),
        c_limit = (if 0 < limit then limit else 0)\<rparr>"
  by (cases srt)
    (simp_all add: read_cursor_def find_cursor_def sort_cursor_def skip_cursor_def
       limit_cursor_def)

text \<open>
  Claim C8. With any driver, \<open>read\<close> with a sort argument makes one call: it runs the
  cursor whose sort is the argument with every direction normalized, \<open>ASCENDING\<close> (1) for
  a direction of 0 or more and \<open>DESCENDING\<close> (-1) for a negative one, and returns what
  that call returns (the empty list on a \<open>PyMongoError\<close>). The driver never sees the
  directions as they were given. On the reference store the documents then come back in
  ascending order of the first sort field for a direction of 0 or more, and in descending
  order for a negative one.
\<close>

theorem read_sort_normalized:
  "read self (Some q) projection limit skip (Some srt) st
     = (case cursor_list (client self)
               \<lparr>c_coll = collection self, c_filter = q, c_projection = projection,
                c_sort = map (\<lambda>(field, direction).
                               (field, if direction \<ge> 0 then ASCENDING else DESCENDING)) srt,
                c_skip = (if 0 < skip then skip else 0),
                c_limit = (if 0 < limit then limit else 0)\<rparr> st of
          (Inl (PyMongoError e), s') \<Rightarrow> (Inr [], s')
        | (Inl e, s') \<Rightarrow> (Inl e, s')
        | (Inr docs, s') \<Rightarrow> (Inr docs, s'))
   \<and> c_sort (read_cursor self q projection limit skip (Some srt))
     = map (\<lambda>(field, direction). (field, if direction \<ge> 0 then ASCENDING else DESCENDING)) srt
   \<and> ASCENDING = 1 \<and> DESCENDING = - 1
   \<and> (0 \<le> direction \<longrightarrow>
        (\<exists>out. read \<lparr>client = mongo E, collection = c\<rparr> (Some q) None limit skip
                  (Some ((field, direction) # others)) s = (Inr out, s)
           \<and> sorted_wrt (\<lambda>a b. val_le (field_val field a) (field_val field b)) out))
   \<and> (direction < 0 \<longrightarrow>
        (\<exists>out. read \<lparr>client = mongo E, collection = c\<rparr> (Some q) None limit skip
                  (Some ((field, direction) # others)) s = (Inr out, s)
           \<and> sorted_wrt (\<lambda>a b. val_le (field_val field b) (field_val field a)) out))"
proof -
  let ?cur = "read_cursor \<lparr>client = mongo E, collection = c\<rparr> q None limit skip
                (Some ((field, direction) # others))"
  let ?k = "(field, if direction \<ge> 0 then 1 else - 1 :: int)"
  let ?found = "filter (selected E q) (colls s c)"
  have call: "read self (Some q) projection limit skip (Some srt) st
     = (case cursor_list (client self)
               \<lparr>c_coll = collection self, c_filter = q, c_projection = projection,
                c_sort = map (\<lambda>(field, direction).
                               (field, if direction \<ge> 0 then ASCENDING else DESCENDING)) srt,
                c_skip = (if 0 < skip then skip else 0),
                c_limit = (if 0 < limit then limit else 0)\<rparr> st of
          (Inl (PyMongoError e), s') \<Rightarrow> (Inr [], s')
        | (Inl e, s') \<Rightarrow> (Inl e, s')
        | (Inr docs, s') \<Rightarrow> (Inr docs, s'))"
    by (simp add: read_def except_PyMongoError_def read_cursor_record)
  have srt: "sorted_wrt (doc_le ?k) (sort_docs (c_sort ?cur) ?found)"
    using sorted_sort_docs[of ?k] by (simp add: read_cursor_fields normalized_def)
  have "sorted_wrt (doc_le ?k) (run_cursor E ?cur (colls s c))"
    using srt
    by (simp add: run_cursor_def Let_def read_cursor_fields sorted_wrt_drop sorted_wrt_take)
  moreover have "doc_le ?k = (if direction \<ge> 0
        then (\<lambda>a b. val_le (field_val field a) (field_val field b))
        else (\<lambda>a b. val_le (field_val field b) (field_val field a)))"
    by (auto simp: doc_le_def fun_eq_iff)
  ultimately have rest: "c_sort (read_cursor self q projection limit skip (Some srt))
     = map (\<lambda>(field, direction). (field, if direction \<ge> 0 then ASCENDING else DESCENDING)) srt
   \<and> ASCENDING = 1 \<and> DESCENDING = - 1
   \<and> (0 \<le> direction \<longrightarrow>
        (\<exists>out. read \<lparr>client = mongo E, collection = c\<rparr> (Some q) None limit skip
                  (Some ((field, direction) # others)) s = (Inr out, s)
           \<and> sorted_wrt (\<lambda>a b. val_le (field_val field a) (field_val field b)) out))
   \<and> (direction < 0 \<longrightarrow>
        (\<exists>out. read \<lparr>client = mongo E, collection = c\<rparr> (Some q) None limit skip
                  (Some ((field, direction) # others)) s = (Inr out, s)
           \<and> sorted_wrt (\<lambda>a b. val_le (field_val field b) (field_val field a)) out))"
    by (auto simp: read_mongo read_cursor_fields normalized_def ASCENDING_def DESCENDING_def)
  from call rest show ?thesis by (rule conjI)
qed

theorem read_sort_normalized_witness:
  "(0::int) \<le> 0 \<and> (- 7::int) < 0
   \<and> read \<lparr>client = spy, collection = ''dogs''\<rparr> (Some []) None 0 0
      (Some [(''breed'', 5), (''name'', 0), (''age_upon_outcome_in_weeks'', - 7)]) []
     = (Inr [],
        [\<lparr>c_coll = ''dogs'', c_filter = [], c_projection = None,
          c_sort = [(''breed'', 1), (''name'', 1), (''age_upon_outcome_in_weeks'', - 1)],
          c_skip = 0, c_limit = 0\<rparr>])
   \<and> read \<lparr>client = mongo plain, collection = ''dogs''\<rparr> (Some []) None 0 0
      (Some [(''age_upon_outcome_in_weeks'', 0)]) kennel_example
     = (Inr [[(''name'', VStr ''Cy''), (''age_upon_outcome_in_weeks'', VInt 8)],
             [(''name'', VStr ''Ed''), (''age_upon_outcome_in_weeks'', VInt 26)],
             [(''name'', VStr ''Ace''), (''age_upon_outcome_in_weeks'', VInt 30)],
             [(''name'', VStr ''Bo''), (''age_upon_outcome_in_weeks'', VInt 52)],
             [(''name'', VStr ''Di''), (''age_upon_outcome_in_weeks'', VInt 104)]],
        kennel_example)
   \<and> read \<lparr>client = mongo plain, collection = ''dogs''\<rparr> (Some []) None 0 0
      (Some [(''age_upon_outcome_in_weeks'', - 7)]) kennel_example
     = (Inr [[(''name'', VStr ''Di''), (''age_upon_outcome_in_weeks'', VInt 104)],
             [(''name'', VStr ''Bo''), (''age_upon_outcome_in_weeks'', VInt 52)],
             [(''name'', VStr ''Ace''), (''age_upon_outcome_in_weeks'', VInt 30)],
             [(''name'', VStr ''Ed''), (''age_upon_outcome_in_weeks'', VInt 26)],
             [(''name'', VStr ''Cy''), (''age_upon_outcome_in_weeks'', VInt 8)]],
        kennel_example)"
proof -
  have asc: "read \<lparr>client = mongo plain, collection = ''dogs''\<rparr> (Some []) None 0 0
      (Some [(''age_upon_outcome_in_weeks'', 0)]) kennel_example
     = (Inr [[(''name'', VStr ''Cy''), (''age_upon_outcome_in_weeks'', VInt 8)],
             [(''name'', VStr ''Ed''), (''age_upon_outcome_in_weeks'', VInt 26)],
             [(''name'', VStr ''Ace''), (''age_upon_outcome_in_weeks'', VInt 30)],
             [(''name'', VStr ''Bo''), (''age_upon_outcome_in_weeks'', VInt 52)],
             [(''name'', VStr ''Di''), (''age_upon_outcome_in_weeks'', VInt 104)]],
        kennel_example)"
    by (simp add: read_mongo read_cursor_fields normalized_def run_cursor_def selected_def
        sort_docs_def sort_by_def doc_le_def val_le_def bson_rank_def field_val_def
        kennel_example_def)
  have desc: "read \<lparr>client = mongo plain, collection = ''dogs''\<rparr> (Some []) None 0 0
      (Some [(''age_upon_outcome_in_weeks'', - 7)]) kennel_example
     = (Inr [[(''name'', VStr ''Di''), (''age_upon_outcome_in_weeks'', VInt 104)],
             [(''name'', VStr ''Bo''), (''age_upon_outcome_in_weeks'', VInt 52)],
             [(''name'', VStr ''Ace''), (''age_upon_outcome_in_weeks'', VInt 30)],
             [(''name'', VStr ''Ed''), (''age_upon_outcome_in_weeks'', VInt 26)],
             [(''name'', VStr ''Cy''), (''age_upon_outcome_in_weeks'', VInt 8)]],
        kennel_example)"
    by (simp add: read_mongo read_cursor_fields normalized_def run_cursor_def selected_def
        sort_docs_def sort_by_def doc_le_def val_le_def bson_rank_def field_val_def
        kennel_example_def)
  have seen: "read \<lparr>client = spy, collection = ''dogs''\<rparr> (Some []) None 0 0
      (Some [(''breed'', 5), (''name'', 0), (''age_upon_outcome_in_weeks'', - 7)]) []
     = (Inr [],
        [\<lparr>c_coll = ''dogs'', c_filter = [], c_projection = None,
          c_sort = [(''breed'', 1), (''name'', 1), (''age_upon_outcome_in_weeks'', - 1)],
          c_skip = 0, c_limit = 0\<rparr>])"
    using read_sort_normalized
      [where self = "\<lparr>client = spy, collection = ''dogs''\<rparr>" and q = "[]"
         and projection = None and limit = 0 and skip = 0 and st = "[]"
         and srt = "[(''breed'', 5), (''name'', 0), (''age_upon_outcome_in_weeks'', - 7)]",
       THEN conjunct1]
    by (simp add: spy_def ASCENDING_def DESCENDING_def)
  from read_sort_normalized
      [where direction = 0 and E = plain and c = "''dogs''" and q = "[]" and limit = 0
         and skip = 0 and field = "''age_upon_outcome_in_weeks''" and others = "[]"
         and s = kennel_example]
    read_sort_normalized
      [where direction = "- 7" and E = plain and c = "''dogs''" and q = "[]" and limit = 0
         and skip = 0 and field = "''age_upon_outcome_in_weeks''" and others = "[]"
         and s = kennel_example]
  show ?thesis unfolding asc desc seen by simp
qed

text \<open>
  Claim C9. With any driver, \<open>read\<close> with a skip of zero or less is \<open>read\<close> with no
  skip, and \<open>read\<close> with a limit of zero or less is \<open>read\<close> with no limit. On the
  reference store the selected documents are sorted first, then the skip drops from the
  front of the sorted list, then the limit cuts what is left; a limit of zero or less cuts
  nothing.
\<close>

theorem read_sort_skip_limit:
  "(skip \<le> 0 \<longrightarrow> read self query projection limit skip sorting s
                  = read self query projection limit 0 sorting s)
   \<and> (limit \<le> 0 \<longrightarrow> read self query projection limit skip sorting s
                  = read self query projection 0 skip sorting s)
   \<and> read \<lparr>client = mongo E, collection = c\<rparr> (Some q) projection limit skip sorting s
       = (Inr ((case projection of None \<Rightarrow> id | Some p \<Rightarrow> map (project E p))
                ((if 0 < limit then take (nat limit) else id)
                  ((if 0 < skip then drop (nat skip) else id)
                    (sort_docs (normalized sorting)
                      (filter (selected E q) (colls s c)))))), s)"
proof (intro conjI impI)
  assume "skip \<le> 0"
  then show "read self query projection limit skip sorting s
      = read self query projection limit 0 sorting s"
    by (cases query) (simp_all add: read_def read_cursor_def)
next
  assume "limit \<le> 0"
  then show "read self query projection limit skip sorting s
      = read self query projection 0 skip sorting s"
    by (cases query) (simp_all add: read_def read_cursor_def)
next
  show "read \<lparr>client = mongo E, collection = c\<rparr> (Some q) projection limit skip sorting s
       = (Inr ((case projection of None \<Rightarrow> id | Some p \<Rightarrow> map (project E p))
                ((if 0 < limit then take (nat limit) else id)
                  ((if 0 < skip then drop (nat skip) else id)
                    (sort_docs (normalized sorting)
                      (filter (selected E q) (colls s c)))))), s)"
    by (cases projection)
      (simp_all add: read_mongo run_cursor_def read_cursor_fields Let_def)
qed

theorem read_sort_skip_limit_witness:
  "read \<lparr>client = mongo plain, collection = ''dogs''\<rparr> (Some []) None 2 1
      (Some [(''age_upon_outcome_in_weeks'', - 1)]) kennel_example
     = (Inr [[(''name'', VStr ''Bo''), (''age_upon_outcome_in_weeks'', VInt 52)],
             [(''name'', VStr ''Ace''), (''age_upon_outcome_in_weeks'', VInt 30)]],
        kennel_example)
   \<and> read \<lparr>client = mongo plain, collection = ''dogs''\<rparr> (Some []) None (- 2) (- 1)
        (Some [(''age_upon_outcome_in_weeks'', - 1)]) kennel_example
     = read \<lparr>client = mongo plain, collection = ''dogs''\<rparr> (Some []) None 0 0
        (Some [(''age_upon_outcome_in_weeks'', - 1)]) kennel_example
   \<and> read \<lparr>client = mongo plain, collection = ''dogs''\<rparr> (Some []) None (- 2) (- 1)
        (Some [(''age_upon_outcome_in_weeks'', - 1)]) kennel_example
     = (Inr [[(''name'', VStr ''Di''), (''age_upon_outcome_in_weeks'', VInt 104)],
             [(''name'', VStr ''Bo''), (''age_upon_outcome_in_weeks'', VInt 52)],
             [(''name'', VStr ''Ace''), (''age_upon_outcome_in_weeks'', VInt 30)],
             [(''name'', VStr ''Ed''), (''age_upon_outcome_in_weeks'', VInt 26)],
             [(''name'', VStr ''Cy''), (''age_upon_outcome_in_weeks'', VInt 8)]],
        kennel_example)"
proof -
  have sorted5: "sort_docs [(''age_upon_outcome_in_weeks'', - 1)] (colls kennel_example ''dogs'')
     = [[(''name'', VStr ''Di''), (''age_upon_outcome_in_weeks'', VInt 104)],
        [(''name'', VStr ''Bo''), (''age_upon_outcome_in_weeks'', VInt 52)],
        [(''name'', VStr ''Ace''), (''age_upon_outcome_in_weeks'', VInt 30)],
        [(''name'', VStr ''Ed''), (''age_upon_outcome_in_weeks'', VInt 26)],
        [(''name'', VStr ''Cy''), (''age_upon_outcome_in_weeks'', VInt 8)]]"
    by (simp add: sort_docs_def sort_by_def doc_le_def val_le_def bson_rank_def field_val_def
        kennel_example_def)
  have sel: "filter (selected plain []) ds = ds" for ds
    by (simp add: selected_def)
  have n: "normalized (Some [(''age_upon_outcome_in_weeks'', - 1)])
      = [(''age_upon_outcome_in_weeks'', - 1)]"
    by (simp add: normalized_def)
  note inst = read_sort_skip_limit
      [where E = plain and c = "''dogs''" and q = "[]" and projection = None
         and sorting = "Some [(''age_upon_outcome_in_weeks'', - 1)]" and s = kennel_example
         and self = "\<lparr>client = mongo plain, collection = ''dogs''\<rparr>" and query = "Some []"]
  have a: "read \<lparr>client = mongo plain, collection = ''dogs''\<rparr> (Some []) None (- 2) (- 1)
        (Some [(''age_upon_outcome_in_weeks'', - 1)]) kennel_example
     = read \<lparr>client = mongo plain, collection = ''dogs''\<rparr> (Some []) None (- 2) 0
        (Some [(''age_upon_outcome_in_weeks'', - 1)]) kennel_example"
    using inst[where limit = "- 2" and skip = "- 1", THEN conjunct1] by simp
  have b: "read \<lparr>client = mongo plain, collection = ''dogs''\<rparr> (Some []) None (- 2) 0
        (Some [(''age_upon_outcome_in_weeks'', - 1)]) kennel_example
     = read \<lparr>client = mongo plain, collection = ''dogs''\<rparr> (Some []) None 0 0
        (Some [(''age_upon_outcome_in_weeks'', - 1)]) kennel_example"
    using inst[where limit = "- 2" and skip = 0, THEN conjunct2, THEN conjunct1] by simp
  note c1 = inst[where limit = 2 and skip = 1, THEN conjunct2, THEN conjunct2,
      unfolded sel n sorted5]
  note c2 = inst[where limit = 0 and skip = 0, THEN conjunct2, THEN conjunct2,
      unfolded sel n sorted5]
  show ?thesis
    unfolding a b c1 c2 by simp
qed

section \<open>Creating\<close>

text \<open>
  Against claim C2 as stated: \<open>create\<close> with the empty mapping raises nothing. On the
  reference store it returns \<open>True\<close>, and the collection \<open>animals\<close> holds one document
  more, the empty one with the \<open>_id\<close> it was given.
\<close>

theorem create_empty_mapping_counterexample:
  "create \<lparr>client = mongo plain, collection = ''animals''\<rparr> (Some []) empty_store
     = (Inr True,
        \<lparr>colls = (\<lambda>col. [])(''animals'' := [[(''_id'', VOid 0)]]), next_oid = 1,
         index_names = []\<rparr>)"
  by (simp add: create_def mongo_def mem_insert_one_def empty_store_def)

lemma create_mongo_result:
  "\<exists>b s'. create \<lparr>client = mongo E, collection = c\<rparr> (Some d) s = (Inr b, s')"
  by (auto simp: create_def mongo_def mem_insert_one_def split: option.split)

text \<open>
  Claim C2, amended. \<open>create(None)\<close> raises the contract error with any driver, and
  returns the state as it was: nothing is inserted, and no soft failure is returned. The
  guard tests for \<open>None\<close> only: a mapping that is present, the empty one too, goes to the
  insert. On the reference store \<open>create\<close> with the empty mapping returns \<open>True\<close> and
  appends one document to \<open>animals\<close>, and \<open>create\<close> with any mapping returns a boolean.
\<close>

theorem create_contract:
  "create self None s
     = (Inl (Exception ''Nothing to save, because data parameter is empty''), s)
   \<and> create \<lparr>client = mongo E, collection = c\<rparr> (Some []) s
     = (Inr True,
        s\<lparr>colls := (colls s)(''animals'' := colls s ''animals'' @ [[(''_id'', VOid (next_oid s))]]),
          next_oid := Suc (next_oid s)\<rparr>)
   \<and> (\<exists>b s'. create \<lparr>client = mongo E, collection = c\<rparr> (Some d) s = (Inr b, s'))"
  using create_mongo_result[of E c d s]
  by (simp add: create_def mongo_def mem_insert_one_def)

section \<open>Updating\<close>

lemma update_mongo:
  "update \<lparr>client = mongo E, collection = c\<rparr> (Some f) (Some u) s
     = (Inr (length (filter (\<lambda>d. selected E f d \<and> modify E (update_operation u) d \<noteq> d)
                (colls s c))),
        s\<lparr>colls := (colls s)
             (c := map (\<lambda>d. if selected E f d then modify E (update_operation u) d else d)
                     (colls s c))\<rparr>)"
  by (simp add: update_def mongo_def mem_update_many_def except_PyMongoError_simps Let_def)





section \<open>Counting breeds\<close>

lemma count_list_map:
  "count_list (map g ds) v = length (filter (\<lambda>d. g d = v) ds)"
  by (induction ds) auto

lemma group_sum_tally:
  "group_sum f ''count'' 1 ds = map group_doc (tally (map (field_val f) ds))"
  by (simp add: group_sum_def tally_def group_doc_def count_list_map)

lemma insert_by_map:
  assumes "\<And>a b. le' (g a) (g b) = le a b"
  shows "insert_by le' (g x) (map g xs) = map g (insert_by le x xs)"
  using assms by (induction xs) auto

lemma sort_by_map:
  assumes "\<And>a b. le' (g a) (g b) = le a b"
  shows "sort_by le' (map g xs) = map g (sort_by le xs)"
  by (induction xs)
    (simp_all add: sort_by_Nil sort_by_Cons
       insert_by_map[where le' = le' and g = g and le = le, OF assms])

lemma doc_le_group_doc:
  "doc_le (''count'', - 1) (group_doc a) (group_doc b) = count_ge a b"
  by (simp add: doc_le_def group_doc_def field_val_def val_le_def bson_rank_def count_ge_def)

lemma sort_group_docs:
  "sort_docs [(''count'', - 1)] (map group_doc ps) = map group_doc (sort_by count_ge ps)"
  by (simp add: sort_docs_def
      sort_by_map[where le' = "doc_le (''count'', - 1)" and g = group_doc and le = count_ge,
        OF doc_le_group_doc])

lemma run_pipeline_breeds:
  "run_pipeline E (pipeline q limit) ds
     = (if 0 < limit then Inr (map group_doc (top_breeds (filter (selected E q) ds) limit))
        else Inl (PyMongoError ''the limit must be positive''))"
  by (simp add: pipeline_def run_stage_def group_sum_tally sort_group_docs top_breeds_def
      take_map)

lemma friendly_keys_group_docs:
  "friendly_keys (map group_doc ps) = Inr (map entry (filter (\<lambda>p. truthy (fst p)) ps))"
  by (induction ps) (simp_all add: group_doc_def entry_def)

lemma top_breeds_nonpositive: "limit \<le> 0 \<Longrightarrow> top_breeds ds limit = []"
  by (simp add: top_breeds_def)

lemma breed_counts_mongo:
  "breed_counts \<lparr>client = mongo E, collection = c\<rparr> query limit s
     = (Inr (map entry (filter (\<lambda>p. truthy (fst p))
               (top_breeds (filter (selected E (case query of None \<Rightarrow> [] | Some q \<Rightarrow> q))
                  (colls s c)) limit))), s)"
  by (simp add: breed_counts_def mongo_def mem_aggregate_def run_pipeline_breeds
      friendly_keys_group_docs top_breeds_nonpositive)

lemma set_tally:
  "set (tally vs) = (\<lambda>v. (v, int (count_list vs v))) ` set vs"
  by (simp add: tally_def)

lemma count_ge_total: "count_ge a b \<or> count_ge b a"
  by (auto simp: count_ge_def)

lemma count_ge_trans: "count_ge a b \<Longrightarrow> count_ge b c \<Longrightarrow> count_ge a c"
  by (auto simp: count_ge_def)

lemma sorted_top_breeds: "sorted_wrt count_ge (top_breeds ds limit)"
  unfolding top_breeds_def
  by (intro sorted_wrt_take sorted_sort_by) (use count_ge_total count_ge_trans in blast)+

lemma set_top_breeds:
  "set (top_breeds ds limit)
     \<subseteq> (\<lambda>v. (v, int (length (filter (\<lambda>d. field_val ''breed'' d = v) ds))))
         ` field_val ''breed'' ` set ds"
  unfolding top_breeds_def
  using set_take_subset[of "nat limit" "sort_by count_ge (tally (map (field_val ''breed'') ds))"]
  by (auto simp: set_sort_by set_tally count_list_map)

lemma top_breeds_all:
  assumes "int (length (remdups (map (field_val ''breed'') ds))) \<le> limit"
  shows "fst ` set (top_breeds ds limit) = field_val ''breed'' ` set ds"
proof -
  have "length (sort_by count_ge (tally (map (field_val ''breed'') ds))) \<le> nat limit"
    using assms by (simp add: length_sort_by tally_def)
  then have "top_breeds ds limit = sort_by count_ge (tally (map (field_val ''breed'') ds))"
    by (simp add: top_breeds_def)
  then show ?thesis
    by (simp add: set_sort_by set_tally image_image)
qed

lemma truthy_iff:
  "truthy v \<longleftrightarrow> v \<noteq> VNull \<and> v \<noteq> VBool False \<and> v \<noteq> VInt 0 \<and> v \<noteq> VStr [] \<and> v \<noteq> VDoc []"
  by (cases v) (auto simp: truthy_def)

text \<open>
  Against claim C7 as stated: of three documents, two with the empty string as breed and
  one Labrador, \<open>breed_counts\<close> returns the Labrador entry alone. The group of the empty
  string, whose key is neither null nor absent, is dropped.
\<close>

theorem breed_counts_falsy_key_counterexample:
  "breed_counts \<lparr>client = mongo plain, collection = ''dogs''\<rparr> (Some []) 20 unnamed_example
     = (Inr [[(''breed'', VStr ''Labrador''), (''count'', VInt 1)]], unnamed_example)"
  by (simp add: breed_counts_mongo top_breeds_def tally_def sort_by_def count_ge_def
      selected_def field_val_def entry_def truthy_def unnamed_example_def)

text \<open>
  Claim C7, amended. On the reference store \<open>breed_counts\<close> returns, with the keys
  \<open>breed\<close> and \<open>count\<close>, the top breeds of the documents that the query selects, the
  empty query selecting all, without the entries whose key is false for Python: null (a
  missing \<open>breed\<close> is grouped as null), \<open>False\<close>, 0, the empty string and the empty
  document. Every other entry of the top breeds is kept. The top breeds are in descending
  order of count, at most \<open>limit\<close> many, each with the number of selected documents of
  that breed, and all the breeds when there are no more than \<open>limit\<close>.
\<close>

theorem breed_counts_top_breeds:
  "breed_counts \<lparr>client = mongo E, collection = c\<rparr> (Some q) limit s
     = (Inr (map entry (filter (\<lambda>p. truthy (fst p))
               (top_breeds (filter (selected E q) (colls s c)) limit))), s)
   \<and> filter (selected E []) ds = ds
   \<and> (truthy v \<longleftrightarrow>
        v \<noteq> VNull \<and> v \<noteq> VBool False \<and> v \<noteq> VInt 0 \<and> v \<noteq> VStr [] \<and> v \<noteq> VDoc [])
   \<and> sorted_wrt (\<lambda>a b. snd b \<le> snd a) (top_breeds ds limit)
   \<and> length (top_breeds ds limit) \<le> nat limit
   \<and> (\<forall>p \<in> set (top_breeds ds limit).
        0 < snd p \<and> snd p = int (length (filter (\<lambda>d. field_val ''breed'' d = fst p) ds)))
   \<and> (int (length (remdups (map (field_val ''breed'') ds))) \<le> limit
        \<longrightarrow> fst ` set (top_breeds ds limit) = field_val ''breed'' ` set ds)"
proof (intro conjI impI ballI)
  show "breed_counts \<lparr>client = mongo E, collection = c\<rparr> (Some q) limit s
     = (Inr (map entry (filter (\<lambda>p. truthy (fst p))
               (top_breeds (filter (selected E q) (colls s c)) limit))), s)"
    by (simp add: breed_counts_mongo)
  show "filter (selected E []) ds = ds"
    by (simp add: selected_def)
  show "truthy v \<longleftrightarrow>
        v \<noteq> VNull \<and> v \<noteq> VBool False \<and> v \<noteq> VInt 0 \<and> v \<noteq> VStr [] \<and> v \<noteq> VDoc []"
    by (rule truthy_iff)
  show "sorted_wrt (\<lambda>a b. snd b \<le> snd a) (top_breeds ds limit)"
    using sorted_top_breeds[of ds limit] by (simp add: count_ge_def[abs_def])
  show "length (top_breeds ds limit) \<le> nat limit"
    by (simp add: top_breeds_def)
next
  fix p assume p: "p \<in> set (top_breeds ds limit)"
  with set_top_breeds[of ds limit] obtain d where d: "d \<in> set ds"
    and eq: "p = (field_val ''breed'' d,
              int (length (filter (\<lambda>d'. field_val ''breed'' d' = field_val ''breed'' d) ds)))"
    by auto
  from d have "filter (\<lambda>d'. field_val ''breed'' d' = field_val ''breed'' d) ds \<noteq> []"
    by (auto simp: filter_empty_conv)
  with eq show "0 < snd p" by simp
  from eq show "snd p = int (length (filter (\<lambda>d. field_val ''breed'' d = fst p) ds))"
    by simp
next
  assume "int (length (remdups (map (field_val ''breed'') ds))) \<le> limit"
  then show "fst ` set (top_breeds ds limit) = field_val ''breed'' ` set ds"
    by (rule top_breeds_all)
qed

theorem breed_counts_top_breeds_witness:
  "breed_counts \<lparr>client = mongo plain, collection = ''dogs''\<rparr> (Some []) 20 breeds_example
     = (Inr [[(''breed'', VStr ''Labrador''), (''count'', VInt 2)],
             [(''breed'', VStr ''Poodle''), (''count'', VInt 1)]], breeds_example)
   \<and> top_breeds (colls breeds_example ''dogs'') 20
     = [(VStr ''Labrador'', 2), (VStr ''Poodle'', 1)]
   \<and> fst ` set (top_breeds (colls breeds_example ''dogs'') 20)
     = field_val ''breed'' ` set (colls breeds_example ''dogs'')"
proof -
  have top: "top_breeds (colls breeds_example ''dogs'') 20
     = [(VStr ''Labrador'', 2), (VStr ''Poodle'', 1)]"
    by (simp add: top_breeds_def tally_def sort_by_def count_ge_def field_val_def
        breeds_example_def)
  have few: "int (length (remdups (map (field_val ''breed'') (colls breeds_example ''dogs''))))
      \<le> 20"
    by (simp add: field_val_def breeds_example_def)
  note inst = breed_counts_top_breeds
      [where E = plain and c = "''dogs''" and q = "[]" and limit = 20 and s = breeds_example
         and ds = "colls breeds_example ''dogs''"]
  have all: "fst ` set (top_breeds (colls breeds_example ''dogs'') 20)
     = field_val ''breed'' ` set (colls breeds_example ''dogs'')"
    using inst few by blast
  have res: "breed_counts \<lparr>client = mongo plain, collection = ''dogs''\<rparr> (Some []) 20
       breeds_example
     = (Inr [[(''breed'', VStr ''Labrador''), (''count'', VInt 2)],
             [(''breed'', VStr ''Poodle''), (''count'', VInt 1)]], breeds_example)"
    using inst[THEN conjunct1] inst[THEN conjunct2, THEN conjunct1]
    by (simp add: top entry_def truthy_def)
  from res top all show ?thesis by blast
qed

text \<open>
  Claim C10. With any driver, \<open>breed_counts\<close> with an absent query is \<open>breed_counts\<close>
  with the empty query: no contract error. On the reference store it returns the top
  breeds of all the documents of the collection.
\<close>

theorem breed_counts_absent_query:
  "breed_counts self None limit s = breed_counts self (Some []) limit s
   \<and> breed_counts \<lparr>client = mongo E, collection = c\<rparr> None limit s
     = (Inr (map entry (filter (\<lambda>p. truthy (fst p)) (top_breeds (colls s c) limit))), s)"
  by (simp add: breed_counts_mongo selected_def) (simp add: breed_counts_def)

section \<open>Which collection an operation works on\<close>

text \<open>
  Against claim C1 as stated: a facade bound to the collection \<open>dogs\<close> creates a
  document. The collection \<open>dogs\<close> stays empty; the document is in \<open>animals\<close>.
\<close>

theorem create_targets_animals_counterexample:
  "colls (snd (create \<lparr>client = mongo plain, collection = ''dogs''\<rparr>
                 (Some [(''breed'', VStr ''Poodle'')]) empty_store)) ''dogs'' = []
   \<and> colls (snd (create \<lparr>client = mongo plain, collection = ''dogs''\<rparr>
                 (Some [(''breed'', VStr ''Poodle'')]) empty_store)) ''animals''
     = [[(''_id'', VOid 0), (''breed'', VStr ''Poodle'')]]"
  by (simp add: create_def mongo_def mem_insert_one_def empty_store_def)

lemma create_frame:
  "col \<noteq> ''animals'' \<Longrightarrow>
   colls (snd (create \<lparr>client = mongo E, collection = c\<rparr> data s)) col = colls s col"
  by (auto simp: create_def mongo_def mem_insert_one_def split: option.splits)

lemma getNextRecordNum_frame:
  "colls t ''animals'' = colls s ''animals'' \<Longrightarrow>
   fst (getNextRecordNum \<lparr>client = mongo E, collection = c\<rparr> t)
     = fst (getNextRecordNum \<lparr>client = mongo E, collection = c\<rparr> s)"
  "snd (getNextRecordNum \<lparr>client = mongo E, collection = c\<rparr> s) = s"
  by (auto simp: getNextRecordNum_def run_cursor_next split: list.splits option.splits sum.splits)

lemma delete_mongo:
  "delete \<lparr>client = mongo E, collection = c\<rparr> (Some f) s
     = (Inr (length (filter (selected E f) (colls s c))),
        s\<lparr>colls := (colls s)(c := filter (\<lambda>d. \<not> selected E f d) (colls s c))\<rparr>)"
  by (simp add: delete_def mongo_def mem_delete_many_def except_PyMongoError_simps Let_def)

lemma count_mongo:
  "count \<lparr>client = mongo E, collection = c\<rparr> query s
     = (Inr (length (filter (selected E (case query of None \<Rightarrow> [] | Some q \<Rightarrow> q))
                (colls s c))), s)"
  by (cases query)
    (simp_all add: count_def mongo_def mem_count_documents_def except_PyMongoError_simps)

lemma bound_results:
  assumes "colls t c = colls s c"
  shows "fst (read \<lparr>client = mongo E, collection = c\<rparr> query projection limit skip sorting t)
       = fst (read \<lparr>client = mongo E, collection = c\<rparr> query projection limit skip sorting s)"
    and "fst (update \<lparr>client = mongo E, collection = c\<rparr> lookup_pair update_data t)
       = fst (update \<lparr>client = mongo E, collection = c\<rparr> lookup_pair update_data s)"
    and "fst (delete \<lparr>client = mongo E, collection = c\<rparr> lookup_pair t)
       = fst (delete \<lparr>client = mongo E, collection = c\<rparr> lookup_pair s)"
    and "fst (breed_counts \<lparr>client = mongo E, collection = c\<rparr> query limit t)
       = fst (breed_counts \<lparr>client = mongo E, collection = c\<rparr> query limit s)"
    and "fst (count \<lparr>client = mongo E, collection = c\<rparr> query t)
       = fst (count \<lparr>client = mongo E, collection = c\<rparr> query s)"
proof -
  show "fst (read \<lparr>client = mongo E, collection = c\<rparr> query projection limit skip sorting t)
       = fst (read \<lparr>client = mongo E, collection = c\<rparr> query projection limit skip sorting s)"
    using assms by (cases query) (simp_all add: read_mongo, simp add: read_def)
  show "fst (update \<lparr>client = mongo E, collection = c\<rparr> lookup_pair update_data t)
       = fst (update \<lparr>client = mongo E, collection = c\<rparr> lookup_pair update_data s)"
    using assms
    by (cases lookup_pair; cases update_data) (simp_all add: update_mongo, simp_all add: update_def)
  show "fst (delete \<lparr>client = mongo E, collection = c\<rparr> lookup_pair t)
       = fst (delete \<lparr>client = mongo E, collection = c\<rparr> lookup_pair s)"
    using assms by (cases lookup_pair) (simp_all add: delete_mongo, simp add: delete_def)
  show "fst (breed_counts \<lparr>client = mongo E, collection = c\<rparr> query limit t)
       = fst (breed_counts \<lparr>client = mongo E, collection = c\<rparr> query limit s)"
    using assms by (simp add: breed_counts_mongo)
  show "fst (count \<lparr>client = mongo E, collection = c\<rparr> query t)
       = fst (count \<lparr>client = mongo E, collection = c\<rparr> query s)"
    using assms by (simp add: count_mongo)
qed

lemma bound_writes:
  assumes "col \<noteq> c"
  shows "colls (snd (update \<lparr>client = mongo E, collection = c\<rparr> lookup_pair update_data s)) col
       = colls s col"
    and "colls (snd (delete \<lparr>client = mongo E, collection = c\<rparr> lookup_pair s)) col
       = colls s col"
proof -
  show "colls (snd (update \<lparr>client = mongo E, collection = c\<rparr> lookup_pair update_data s)) col
       = colls s col"
    using assms
    by (cases lookup_pair; cases update_data) (simp_all add: update_mongo, simp_all add: update_def)
  show "colls (snd (delete \<lparr>client = mongo E, collection = c\<rparr> lookup_pair s)) col
       = colls s col"
    using assms by (cases lookup_pair) (simp_all add: delete_mongo, simp add: delete_def)
qed

lemma bound_reads:
  "snd (read \<lparr>client = mongo E, collection = c\<rparr> query projection limit skip sorting s) = s"
  "snd (breed_counts \<lparr>client = mongo E, collection = c\<rparr> query limit s) = s"
  "snd (count \<lparr>client = mongo E, collection = c\<rparr> query s) = s"
  by (cases query; simp add: read_mongo; simp add: read_def)
    (simp_all add: breed_counts_mongo count_mongo)

text \<open>
  Claim C1, amended. Two operations use the collection literally named \<open>animals\<close>:
  \<open>getNextRecordNum\<close> and \<open>create\<close>. With any driver they do the same whatever
  collection is bound; on the reference store \<open>create\<close> changes no collection but
  \<open>animals\<close>, and \<open>getNextRecordNum\<close> changes nothing and returns what the documents of
  \<open>animals\<close> determine. The others, \<open>read\<close>, \<open>update\<close>, \<open>delete\<close>, \<open>breed_counts\<close> and
  \<open>count\<close>, work on the bound collection: what they return is determined by its
  documents, \<open>update\<close> and \<open>delete\<close> change no other collection, and the other three
  change nothing.
\<close>

theorem collection_targets:
  "getNextRecordNum (self\<lparr>collection := c'\<rparr>) s = getNextRecordNum self s
   \<and> create (self\<lparr>collection := c'\<rparr>) data s = create self data s
   \<and> (col \<noteq> ''animals'' \<longrightarrow>
        colls (snd (create \<lparr>client = mongo E, collection = c\<rparr> data s)) col = colls s col)
   \<and> (colls t ''animals'' = colls s ''animals'' \<longrightarrow>
        fst (getNextRecordNum \<lparr>client = mongo E, collection = c\<rparr> t)
          = fst (getNextRecordNum \<lparr>client = mongo E, collection = c\<rparr> s))
   \<and> snd (getNextRecordNum \<lparr>client = mongo E, collection = c\<rparr> s) = s
   \<and> (colls t c = colls s c \<longrightarrow>
        fst (read \<lparr>client = mongo E, collection = c\<rparr> query projection limit skip sorting t)
          = fst (read \<lparr>client = mongo E, collection = c\<rparr> query projection limit skip sorting s)
        \<and> fst (update \<lparr>client = mongo E, collection = c\<rparr> lookup_pair update_data t)
          = fst (update \<lparr>client = mongo E, collection = c\<rparr> lookup_pair update_data s)
        \<and> fst (delete \<lparr>client = mongo E, collection = c\<rparr> lookup_pair t)
          = fst (delete \<lparr>client = mongo E, collection = c\<rparr> lookup_pair s)
        \<and> fst (breed_counts \<lparr>client = mongo E, collection = c\<rparr> query limit t)
          = fst (breed_counts \<lparr>client = mongo E, collection = c\<rparr> query limit s)
        \<and> fst (count \<lparr>client = mongo E, collection = c\<rparr> query t)
          = fst (count \<lparr>client = mongo E, collection = c\<rparr> query s))
   \<and> (col \<noteq> c \<longrightarrow>
        colls (snd (update \<lparr>client = mongo E, collection = c\<rparr> lookup_pair update_data s)) col
          = colls s col
        \<and> colls (snd (delete \<lparr>client = mongo E, collection = c\<rparr> lookup_pair s)) col
          = colls s col)
   \<and> snd (read \<lparr>client = mongo E, collection = c\<rparr> query projection limit skip sorting s) = s
   \<and> snd (breed_counts \<lparr>client = mongo E, collection = c\<rparr> query limit s) = s
   \<and> snd (count \<lparr>client = mongo E, collection = c\<rparr> query s) = s"
  apply (intro conjI impI)
  subgoal by (simp add: getNextRecordNum_def)
  subgoal by (cases data) (simp_all add: create_def)
  subgoal by (rule create_frame)
  subgoal by (rule getNextRecordNum_frame(1))
  subgoal by (rule getNextRecordNum_frame(2))
  subgoal by (rule bound_results(1))
  subgoal by (rule bound_results(2))
  subgoal by (rule bound_results(3))
  subgoal by (rule bound_results(4))
  subgoal by (rule bound_results(5))
  subgoal by (rule bound_writes(1))
  subgoal by (rule bound_writes(2))
  subgoal by (rule bound_reads(1))
  subgoal by (rule bound_reads(2))
  subgoal by (rule bound_reads(3))
  done

theorem collection_targets_witness:
  "''dogs'' \<noteq> ''animals'' \<and> ''dogs'' \<noteq> ''cats''
   \<and> colls breeds_example ''animals'' = colls kennel_example ''animals''
   \<and> colls breeds_example ''cats'' = colls kennel_example ''cats''
   \<and> fst (getNextRecordNum \<lparr>client = mongo plain, collection = ''cats''\<rparr> breeds_example)
     = fst (getNextRecordNum \<lparr>client = mongo plain, collection = ''cats''\<rparr> kennel_example)
   \<and> fst (count \<lparr>client = mongo plain, collection = ''cats''\<rparr> None breeds_example)
     = fst (count \<lparr>client = mongo plain, collection = ''cats''\<rparr> None kennel_example)
   \<and> colls (snd (create \<lparr>client = mongo plain, collection = ''cats''\<rparr>
                 (Some [(''breed'', VStr ''Poodle'')]) kennel_example)) ''dogs''
     = colls kennel_example ''dogs''
   \<and> colls (snd (delete \<lparr>client = mongo plain, collection = ''cats''\<rparr> (Some [])
                 kennel_example)) ''dogs''
     = colls kennel_example ''dogs''"
proof -
  have h: "''dogs'' \<noteq> ''animals''" "''dogs'' \<noteq> ''cats''"
    "colls breeds_example ''animals'' = colls kennel_example ''animals''"
    "colls breeds_example ''cats'' = colls kennel_example ''cats''"
    by (simp_all add: breeds_example_def kennel_example_def)
  from h collection_targets
      [where col = "''dogs''" and c = "''cats''" and E = plain and t = breeds_example
         and s = kennel_example and data = "Some [(''breed'', VStr ''Poodle'')]"
         and lookup_pair = "Some []" and query = None]
  show ?thesis by blast
qed

end
